theory Spec2Isabelle
  imports Main
begin

section \<open>The request handler: \<open>CORSRequestHandler\<close>\<close>

text \<open>
  \<^verbatim>\<open>
  class CORSRequestHandler(SimpleHTTPRequestHandler):
      def end_headers(self):
          self.send_header('Access-Control-Allow-Origin', '*')
          self.send_header('Cache-Control', 'no-cache, no-store, must-revalidate')
          self.send_header('Pragma', 'no-cache')
          self.send_header('Expires', '0')
          super().end_headers()
  \<close>
  The class overrides one method. The two methods it calls, \<open>send_header\<close> and the
  inherited \<open>end_headers\<close>, belong to the base class \<open>SimpleHTTPRequestHandler\<close> of
  Python's standard library. The override is written over any pair of such operations
  on a handler state \<open>'h\<close>; the operations of the library follow below.
\<close>

type_synonym header = "string \<times> string"

record 'h base_handler =
  send_header :: "string \<Rightarrow> string \<Rightarrow> 'h \<Rightarrow> 'h"
  super_end_headers :: "'h \<Rightarrow> 'h"

definition end_headers :: "'h base_handler \<Rightarrow> 'h \<Rightarrow> 'h" where
  "end_headers B self =
     (let self = send_header B ''Access-Control-Allow-Origin'' ''*'' self;
          self = send_header B ''Cache-Control'' ''no-cache, no-store, must-revalidate'' self;
          self = send_header B ''Pragma'' ''no-cache'' self;
          self = send_header B ''Expires'' ''0'' self
      in super_end_headers B self)"

text \<open>
  The four headers as the specification lists them (section 4.1, header injection);
  this list is written from the specification, to be compared with what
  \<open>end_headers\<close> sends.
\<close>

definition spec_fixed_headers :: "header list" where
  "spec_fixed_headers =
     [(''Access-Control-Allow-Origin'', ''*''),
      (''Cache-Control'', ''no-cache, no-store, must-revalidate''),
      (''Pragma'', ''no-cache''),
      (''Expires'', ''0'')]"

section \<open>The program: start, serve, stop\<close>

text \<open>
  \<^verbatim>\<open>
  port = 8000
  print(f"Starting server at http://localhost:{port}")
  httpd = HTTPServer(('localhost', port), CORSRequestHandler)
  try:
      httpd.serve_forever()
  except KeyboardInterrupt:
      print("\nServer stopped.")
      sys.exit(0)
  \<close>
\<close>

subsection \<open>Python's \<open>str\<close> on integers and \<open>print\<close>\<close>

definition digit :: "nat \<Rightarrow> char" where
  "digit d = ''0123456789'' ! d"

function digits :: "nat \<Rightarrow> string" where
  "digits n = (if n < 10 then [digit n] else digits (n div 10) @ [digit (n mod 10)])"
  by pat_completeness auto
termination
  by (relation "measure id") auto

text \<open>The decimal text an f-string puts in place of \<open>{port}\<close>.\<close>

definition str :: "int \<Rightarrow> string" where
  "str i = (if i < 0 then CHR ''-'' # digits (nat (- i)) else digits (nat i))"

subsection \<open>What the program does to its surroundings\<close>

type_synonym address = "string \<times> int"
type_synonym request = string

datatype exn = KeyboardInterrupt | OSError string

text \<open>
  The effects of a run, oldest first: text written to \<open>sys.stdout\<close>; the call
  \<open>HTTPServer(address, CORSRequestHandler)\<close>, which creates the listening socket and
  tries to bind it; entering \<open>serve_forever\<close>; one request handed to the handler class.
\<close>

datatype effect =
    Stdout string
  | Http_server address
  | Serve_forever
  | Handle request

text \<open>
  How a run ends: \<open>sys.exit(n)\<close>; an exception nobody catches, which the interpreter
  reports with a traceback; or not at all, the program still waiting in the accept loop.
\<close>

datatype outcome = Exit int | Traceback exn | Serving

text \<open>
  What happens while \<open>serve_forever\<close> runs: a request arrives, or an exception comes
  out of the loop (\<open>KeyboardInterrupt\<close> when the process is interrupted).
\<close>

datatype event = Request request | Raise exn

text \<open>
  The surroundings of one run. \<open>argv\<close>, \<open>environ\<close> and \<open>files\<close> are the command
  line, the environment variables and the files of the working directory; \<open>bind_error\<close>
  says for each address whether binding the listening socket there fails, and with
  which message; \<open>events\<close> is what happens during the accept loop.
\<close>

record world =
  argv :: "string list"
  environ :: "(string \<times> string) list"
  files :: "(string \<times> string) list"
  bind_error :: "address \<Rightarrow> string option"
  events :: "event list"

text \<open>\<open>print(s)\<close> writes \<open>s\<close> and a newline to standard output.\<close>

definition print :: "string \<Rightarrow> effect list \<Rightarrow> effect list" where
  "print s t = t @ [Stdout (s @ ''\<newline>'')]"

text \<open>
  \<open>HTTPServer(address, CORSRequestHandler)\<close>: the constructor creates the listening
  socket and binds it to the address; it raises \<open>OSError\<close> when that fails. The
  attempt is an effect either way.
\<close>

definition HTTPServer :: "world \<Rightarrow> address \<Rightarrow> effect list \<Rightarrow> effect list \<times> exn option" where
  "HTTPServer w a t =
     (case bind_error w a of
        Some msg \<Rightarrow> (t @ [Http_server a], Some (OSError msg))
      | None \<Rightarrow> (t @ [Http_server a], None))"

text \<open>
  The accept loop. It handles requests one after the other and returns only through
  an exception; when the events are used up the loop is still waiting, and the call
  has not returned (\<open>None\<close>).
\<close>

fun serve_loop :: "event list \<Rightarrow> effect list \<Rightarrow> effect list \<times> exn option" where
  "serve_loop [] t = (t, None)"
| "serve_loop (Request r # es) t = serve_loop es (t @ [Handle r])"
| "serve_loop (Raise e # es) t = (t, Some e)"

definition serve_forever :: "world \<Rightarrow> effect list \<Rightarrow> effect list \<times> exn option" where
  "serve_forever w t = serve_loop (events w) (t @ [Serve_forever])"

definition sys_exit :: "int \<Rightarrow> effect list \<Rightarrow> effect list \<times> outcome" where
  "sys_exit n t = (t, Exit n)"

definition port :: int where
  "port = 8000"

definition main :: "world \<Rightarrow> effect list \<times> outcome" where
  "main w =
     (let t = print (''Starting server at http://localhost:'' @ str port) [] in
      case HTTPServer w (''localhost'', port) t of
        (t, Some e) \<Rightarrow> (t, Traceback e)
      | (t, None) \<Rightarrow>
          (case serve_forever w t of
             (t, None) \<Rightarrow> (t, Serving)
           | (t, Some e) \<Rightarrow>
               (case e of
                  KeyboardInterrupt \<Rightarrow> sys_exit 0 (print ''\<newline>Server stopped.'' t)
                | OSError msg \<Rightarrow> (t, Traceback e))))"

text \<open>
  The exit status of the process: the argument of \<open>sys.exit\<close>; 1 when the interpreter
  ends on an exception nobody caught; none while the program runs.
\<close>

fun exit_status :: "outcome \<Rightarrow> int option" where
  "exit_status (Exit n) = Some n"
| "exit_status (Traceback e) = Some 1"
| "exit_status Serving = None"

text \<open>Views of a run's effects: the text on standard output, and the addresses bound.\<close>

fun stdout_of :: "effect list \<Rightarrow> string" where
  "stdout_of [] = []"
| "stdout_of (Stdout s # t) = s @ stdout_of t"
| "stdout_of (x # t) = stdout_of t"

fun bind_calls :: "effect list \<Rightarrow> address list" where
  "bind_calls [] = []"
| "bind_calls (Http_server a # t) = a # bind_calls t"
| "bind_calls (x # t) = bind_calls t"

text \<open>The requests that arrive before the first exception, and that exception.\<close>

fun served :: "event list \<Rightarrow> request list" where
  "served [] = []"
| "served (Request r # es) = r # served es"
| "served (Raise e # es) = []"

fun raised :: "event list \<Rightarrow> exn option" where
  "raised [] = None"
| "raised (Request r # es) = raised es"
| "raised (Raise e # es) = Some e"

subsection \<open>Concrete runs\<close>

text \<open>An idle server that is interrupted: the bind succeeds, then Ctrl-C.\<close>

definition interrupted_idle :: world where
  "interrupted_idle =
     \<lparr>argv = [], environ = [], files = [], bind_error = (\<lambda>a. None),
      events = [Raise KeyboardInterrupt]\<rparr>"

text \<open>Two requests, Ctrl-C, and a request that arrives too late.\<close>

definition interrupted_busy :: world where
  "interrupted_busy =
     \<lparr>argv = [''server.py''], environ = [(''PORT'', ''9000'')], files = [],
      bind_error = (\<lambda>a. None),
      events = [Request ''GET /index.html HTTP/1.1'', Request ''GET /missing HTTP/1.1'',
                Raise KeyboardInterrupt, Request ''GET /late HTTP/1.1'']\<rparr>"

text \<open>The port is taken: every bind fails.\<close>

definition port_in_use :: world where
  "port_in_use =
     \<lparr>argv = [], environ = [], files = [],
      bind_error = (\<lambda>a. Some ''[Errno 98] Address already in use''),
      events = [Request ''GET / HTTP/1.1'', Raise KeyboardInterrupt]\<rparr>"

text \<open>Binding needs a permission the process lacks.\<close>

definition permission_denied :: world where
  "permission_denied =
     \<lparr>argv = [], environ = [], files = [],
      bind_error = (\<lambda>a. Some ''[Errno 13] Permission denied''),
      events = []\<rparr>"

section \<open>The base classes: \<open>http.server\<close> of the standard library\<close>

text \<open>
  What the server sends is decided together by the override and by the classes it
  inherits from, \<open>BaseHTTPRequestHandler\<close> and \<open>SimpleHTTPRequestHandler\<close> in
  \<open>http/server.py\<close> (Python 3.12). This section follows that file for the path from a
  request to the bytes of its response. Left as given, in the record \<open>library\<close>, is what
  depends on the machine and the files: the table of status phrases, the server and date
  strings, the text of an error page, Python's \<open>repr\<close>, the parsing of the header block
  of a request, and which status, headers and file \<open>send_head\<close> of
  \<open>SimpleHTTPRequestHandler\<close> chooses for a \<open>GET\<close> or \<open>HEAD\<close>. Not modelled: the log lines
  on standard error, and the path the request names, which only \<open>send_head\<close> reads.
\<close>

subsection \<open>Strings as Python handles them\<close>

definition CRLF :: string where
  "CRLF = [CHR 0x0D, CHR 0x0A]"

text \<open>\<open>str.isspace\<close> on the characters of ISO-8859-1, in which the request line is read.\<close>

definition isspace :: "char \<Rightarrow> bool" where
  "isspace c =
     (let n = (of_char c :: nat)
      in (9 \<le> n \<and> n \<le> 13) \<or> (28 \<le> n \<and> n \<le> 32) \<or> n = 133 \<or> n = 160)"

text \<open>\<open>s.split()\<close>: the words between runs of whitespace.\<close>

fun split_from :: "string \<Rightarrow> string \<Rightarrow> string list" where
  "split_from word [] = (if word = [] then [] else [word])"
| "split_from word (c # cs) =
     (if isspace c then (if word = [] then split_from [] cs else word # split_from [] cs)
      else split_from (word @ [c]) cs)"

definition split_words :: "string \<Rightarrow> string list" where
  "split_words s = split_from [] s"

text \<open>\<open>s.split(sep)\<close> for a one-character separator: empty parts are kept.\<close>

fun split_at :: "char \<Rightarrow> string \<Rightarrow> string \<Rightarrow> string list" where
  "split_at sep part [] = [part]"
| "split_at sep part (c # cs) =
     (if c = sep then part # split_at sep [] cs else split_at sep (part @ [c]) cs)"

text \<open>\<open>s.rstrip('\r\n')\<close>.\<close>

definition rstrip_crlf :: "string \<Rightarrow> string" where
  "rstrip_crlf s = rev (dropWhile (\<lambda>c. c = CHR 0x0D \<or> c = CHR 0x0A) (rev s))"

text \<open>
  \<open>s.lower()\<close> on the letters A to Z. The library only compares the result with the
  words \<open>connection\<close>, \<open>close\<close> and \<open>keep-alive\<close>, which no other character lowers to.
\<close>

definition lower :: "string \<Rightarrow> string" where
  "lower s =
     map (\<lambda>c. case map_of (zip ''ABCDEFGHIJKLMNOPQRSTUVWXYZ'' ''abcdefghijklmnopqrstuvwxyz'') c of
                 Some l \<Rightarrow> l | None \<Rightarrow> c) s"

text \<open>
  \<open>s.isdigit()\<close> (on ISO-8859-1 the ten digits and the superscripts one, two, three)
  and \<open>int(s)\<close>, which raises \<open>ValueError\<close> on a superscript (\<open>None\<close>).
\<close>

definition isdigit :: "string \<Rightarrow> bool" where
  "isdigit s =
     (s \<noteq> [] \<and>
      list_all (\<lambda>c. let n = (of_char c :: nat)
                    in (48 \<le> n \<and> n \<le> 57) \<or> n = 178 \<or> n = 179 \<or> n = 185) s)"

fun int_of :: "string \<Rightarrow> int option" where
  "int_of s =
     (if s \<noteq> [] \<and> list_all (\<lambda>c. c \<in> set ''0123456789'') s
      then Some (foldl (\<lambda>n c. 10 * n + int (of_char c - 48)) 0 s) else None)"

subsection \<open>The handler object and the library's givens\<close>

text \<open>
  The fields of a handler that the response depends on: \<open>request_version\<close>,
  \<open>command\<close>, \<open>close_connection\<close>, the list \<open>_headers_buffer\<close> (an absent buffer is the
  empty list) and \<open>wfile\<close>, as the list of the writes made to it, oldest first.
\<close>

record handler =
  request_version :: string
  command :: "string option"
  close_connection :: bool
  headers_buffer :: "string list"
  wfile :: "string list"

text \<open>
  What \<open>send_head\<close> of \<open>SimpleHTTPRequestHandler\<close> does for a request, in the two forms
  it has: \<open>send_response(code)\<close>, some \<open>send_header\<close> calls, \<open>self.end_headers()\<close> and a
  file to copy to the client (empty when there is none); or \<open>send_error(code, message)\<close>.
\<close>

datatype reply = Send_head int "header list" string | Send_error int string

record library =
  responses :: "int \<Rightarrow> (string \<times> string) option"
  version_string :: string
  date_time_string :: string
  error_page :: "int \<Rightarrow> string \<Rightarrow> string \<Rightarrow> string"
  repr :: "string \<Rightarrow> string"
  header_fault :: "request \<Rightarrow> (string \<times> string) option"
  do_method :: "string \<Rightarrow> request \<Rightarrow> reply"

definition protocol_version :: string where
  "protocol_version = ''HTTP/1.0''"

definition default_request_version :: string where
  "default_request_version = ''HTTP/0.9''"

definition error_content_type :: string where
  "error_content_type = ''text/html;charset=utf-8''"

subsection \<open>Sending the status line and headers\<close>

text \<open>
  \<^verbatim>\<open>
  def send_response_only(self, code, message=None):
      if self.request_version != 'HTTP/0.9':
          if message is None:
              if code in self.responses:
                  message = self.responses[code][0]
              else:
                  message = ''
          if not hasattr(self, '_headers_buffer'):
              self._headers_buffer = []
          self._headers_buffer.append(("%s %d %s\r\n" %
                  (self.protocol_version, code, message)).encode('latin-1', 'strict'))
  \<close>
\<close>

definition send_response_only :: "library \<Rightarrow> int \<Rightarrow> string option \<Rightarrow> handler \<Rightarrow> handler" where
  "send_response_only L code message self =
     (if request_version self \<noteq> ''HTTP/0.9'' then
        (let message =
               (case message of
                  Some m \<Rightarrow> m
                | None \<Rightarrow> (case responses L code of Some (phrase, description) \<Rightarrow> phrase | None \<Rightarrow> []))
         in self\<lparr>headers_buffer := headers_buffer self
                   @ [protocol_version @ '' '' @ str code @ '' '' @ message @ CRLF]\<rparr>)
      else self)"

text \<open>
  \<^verbatim>\<open>
  def send_header(self, keyword, value):
      if self.request_version != 'HTTP/0.9':
          if not hasattr(self, '_headers_buffer'):
              self._headers_buffer = []
          self._headers_buffer.append(
              ("%s: %s\r\n" % (keyword, value)).encode('latin-1', 'strict'))
      if keyword.lower() == 'connection':
          if value.lower() == 'close':
              self.close_connection = True
          elif value.lower() == 'keep-alive':
              self.close_connection = False

  def end_headers(self):
      if self.request_version != 'HTTP/0.9':
          self._headers_buffer.append(b"\r\n")
          self.flush_headers()

  def flush_headers(self):
      if hasattr(self, '_headers_buffer'):
          self.wfile.write(b"".join(self._headers_buffer))
          self._headers_buffer = []
  \<close>
\<close>

definition base_send_header :: "string \<Rightarrow> string \<Rightarrow> handler \<Rightarrow> handler" where
  "base_send_header keyword v self =
     (let self =
            (if request_version self \<noteq> ''HTTP/0.9''
             then self\<lparr>headers_buffer := headers_buffer self @ [keyword @ '': '' @ v @ CRLF]\<rparr>
             else self)
      in if lower keyword = ''connection'' then
           (if lower v = ''close'' then self\<lparr>close_connection := True\<rparr>
            else if lower v = ''keep-alive'' then self\<lparr>close_connection := False\<rparr>
            else self)
         else self)"

definition flush_headers :: "handler \<Rightarrow> handler" where
  "flush_headers self =
     self\<lparr>wfile := wfile self @ [concat (headers_buffer self)], headers_buffer := []\<rparr>"

definition base_end_headers :: "handler \<Rightarrow> handler" where
  "base_end_headers self =
     (if request_version self \<noteq> ''HTTP/0.9''
      then flush_headers (self\<lparr>headers_buffer := headers_buffer self @ [CRLF]\<rparr>)
      else self)"

text \<open>
  The base class as the override sees it, and the handler class of the repository: the
  method \<open>end_headers\<close> of \<open>CORSRequestHandler\<close> is the override run on the library's
  operations. Every other method is inherited.
\<close>

definition SimpleHTTPRequestHandler :: "handler base_handler" where
  "SimpleHTTPRequestHandler =
     \<lparr>send_header = base_send_header, super_end_headers = base_end_headers\<rparr>"

definition CORSRequestHandler :: "handler \<Rightarrow> handler" where
  "CORSRequestHandler = end_headers SimpleHTTPRequestHandler"

text \<open>\<open>send_response\<close>: the status line, then the \<open>Server\<close> and \<open>Date\<close> headers.\<close>

definition send_response :: "library \<Rightarrow> int \<Rightarrow> string option \<Rightarrow> handler \<Rightarrow> handler" where
  "send_response L code message self =
     (let self = send_response_only L code message self;
          self = base_send_header ''Server'' (version_string L) self
      in base_send_header ''Date'' (date_time_string L) self)"

text \<open>
  \<open>send_error\<close>. It ends its headers through \<open>self.end_headers()\<close>, which is the method
  of the handler's own class: that method is the first argument. The page is left out for
  the codes below 200 and for 204, 205 and 304, and not written for a \<open>HEAD\<close>.
\<close>

definition send_error ::
  "(handler \<Rightarrow> handler) \<Rightarrow> library \<Rightarrow> int \<Rightarrow> string option \<Rightarrow> string option \<Rightarrow> handler \<Rightarrow> handler" where
  "send_error self_end_headers L code message explain self =
     (let (shortmsg, longmsg) = (case responses L code of Some p \<Rightarrow> p | None \<Rightarrow> (''???'', ''???''));
          message = (case message of None \<Rightarrow> shortmsg | Some m \<Rightarrow> m);
          explain = (case explain of None \<Rightarrow> longmsg | Some e \<Rightarrow> e);
          self = send_response L code (Some message) self;
          self = base_send_header ''Connection'' ''close'' self;
          with_body = (200 \<le> code \<and> code \<noteq> 204 \<and> code \<noteq> 205 \<and> code \<noteq> 304);
          body = (if with_body then error_page L code message explain else []);
          self = (if with_body
                  then base_send_header ''Content-Length'' (str (int (length body)))
                         (base_send_header ''Content-Type'' error_content_type self)
                  else self);
          self = self_end_headers self
      in if command self \<noteq> Some ''HEAD'' \<and> body \<noteq> []
         then self\<lparr>wfile := wfile self @ [body]\<rparr> else self)"

subsection \<open>From a request to its response\<close>

text \<open>
  The version check of \<open>parse_request\<close>: the word must start with \<open>HTTP/\<close> and go on with
  two numbers of at most ten digits, separated by one dot.
\<close>

definition http_version :: "string \<Rightarrow> (int \<times> int) option" where
  "http_version version =
     (if take 5 version \<noteq> ''HTTP/'' then None
      else (let version_number = split_at CHR ''.'' [] (drop 5 version)
            in if length version_number \<noteq> 2 then None
               else if \<not> list_all isdigit version_number then None
               else if \<not> list_all (\<lambda>component. length component \<le> 10) version_number then None
               else (case (int_of (version_number ! 0), int_of (version_number ! 1)) of
                       (Some major, Some minor) \<Rightarrow> Some (major, minor)
                     | _ \<Rightarrow> None)))"

text \<open>\<open>self.rfile.readline(65537)\<close>: the first line of the request, its newline included.\<close>

definition raw_requestline :: "request \<Rightarrow> string" where
  "raw_requestline r =
     take 65537 (takeWhile (\<lambda>c. c \<noteq> CHR 0x0A) r @ (if CHR 0x0A \<in> set r then [CHR 0x0A] else []))"

text \<open>
  \<open>parse_request\<close>. The version is \<open>HTTP/0.9\<close> until a request line of three words or
  more has passed the version check; the errors sent before that (a version that does
  not parse, a version from 2.0 on, a single word) are sent under \<open>HTTP/0.9\<close>. The
  class keeps \<open>protocol_version = "HTTP/1.0"\<close>, under which the \<open>Connection\<close> and \<open>Expect\<close>
  headers of the request change nothing. The result says whether the request goes on to
  its method.
\<close>

definition parse_request ::
  "(handler \<Rightarrow> handler) \<Rightarrow> library \<Rightarrow> request \<Rightarrow> handler \<Rightarrow> bool \<times> handler" where
  "parse_request self_end_headers L r self =
     (let self = self\<lparr>command := None, request_version := default_request_version,
                       close_connection := True\<rparr>;
          requestline = rstrip_crlf (raw_requestline r);
          words = split_words requestline
      in if length words = 0 then (False, self)
         else if 3 \<le> length words \<and> http_version (last words) = None then
           (False, send_error self_end_headers L 400
                     (Some (''Bad request version ('' @ repr L (last words) @ '')'')) None self)
         else if 3 \<le> length words
                 \<and> (case http_version (last words) of
                       Some (major, minor) \<Rightarrow> 2 \<le> major | None \<Rightarrow> False) then
           (False, send_error self_end_headers L 505
                     (Some (''Invalid HTTP version ('' @ drop 5 (last words) @ '')'')) None self)
         else
           (let self = (if 3 \<le> length words then self\<lparr>request_version := last words\<rparr> else self)
            in if \<not> (2 \<le> length words \<and> length words \<le> 3) then
                 (False, send_error self_end_headers L 400
                           (Some (''Bad request syntax ('' @ repr L requestline @ '')'')) None self)
               else if length words = 2 \<and> words ! 0 \<noteq> ''GET'' then
                 (False, send_error self_end_headers L 400
                           (Some (''Bad HTTP/0.9 request type ('' @ repr L (words ! 0) @ '')'')) None
                           (self\<lparr>close_connection := True\<rparr>))
               else
                 (let self = self\<lparr>command := Some (words ! 0), close_connection := True\<rparr>
                  in case header_fault L r of
                       Some (message, explain) \<Rightarrow>
                         (False, send_error self_end_headers L 431 (Some message) (Some explain) self)
                     | None \<Rightarrow> (True, self))))"

text \<open>
  \<open>handle_one_request\<close>. \<open>SimpleHTTPRequestHandler\<close> has the methods \<open>do_GET\<close> and
  \<open>do_HEAD\<close> and \<open>CORSRequestHandler\<close> adds none; \<open>do_GET\<close> copies the file of \<open>send_head\<close>
  to the client, \<open>do_HEAD\<close> does not.
\<close>

definition handle_one_request ::
  "(handler \<Rightarrow> handler) \<Rightarrow> library \<Rightarrow> request \<Rightarrow> handler \<Rightarrow> handler" where
  "handle_one_request self_end_headers L r self =
     (if 65536 < length (raw_requestline r) then
        send_error self_end_headers L 414 None None
          (self\<lparr>request_version := [], command := Some []\<rparr>)
      else if raw_requestline r = [] then self\<lparr>close_connection := True\<rparr>
      else
        (case parse_request self_end_headers L r self of
           (False, self) \<Rightarrow> self
         | (True, self) \<Rightarrow>
             (case command self of
                None \<Rightarrow> self
              | Some c \<Rightarrow>
                  if c \<noteq> ''GET'' \<and> c \<noteq> ''HEAD'' then
                    send_error self_end_headers L 501
                      (Some (''Unsupported method ('' @ repr L c @ '')'')) None self
                  else
                    (case do_method L c r of
                       Send_error code message \<Rightarrow>
                         send_error self_end_headers L code (Some message) None self
                     | Send_head code headers f \<Rightarrow>
                         (let self = send_response L code None self;
                              self = fold (\<lambda>(keyword, v). base_send_header keyword v) headers self;
                              self = self_end_headers self
                          in if c = ''GET'' \<and> f \<noteq> []
                             then self\<lparr>wfile := wfile self @ [f]\<rparr> else self)))))"

text \<open>
  A handler object is made for each connection; with \<open>protocol_version = "HTTP/1.0"\<close> it
  handles one request. The response is what it has written when it is done.
\<close>

definition new_handler :: handler where
  "new_handler =
     \<lparr>request_version = default_request_version, command = None, close_connection = True,
      headers_buffer = [], wfile = []\<rparr>"

definition response :: "(handler \<Rightarrow> handler) \<Rightarrow> library \<Rightarrow> request \<Rightarrow> string list" where
  "response self_end_headers L r = wfile (handle_one_request self_end_headers L r new_handler)"

subsection \<open>The responses of a run\<close>

text \<open>
  The program passes \<open>CORSRequestHandler\<close> to \<open>HTTPServer\<close> as the handler class, so each
  request the accept loop handles is answered by a new \<open>CORSRequestHandler\<close>. The
  responses of a run are those to its handled requests, in order.
\<close>

fun handled :: "effect list \<Rightarrow> request list" where
  "handled [] = []"
| "handled (Handle r # t) = r # handled t"
| "handled (x # t) = handled t"

definition server_responses :: "library \<Rightarrow> world \<Rightarrow> (request \<times> string list) list" where
  "server_responses L w = map (\<lambda>r. (r, response CORSRequestHandler L r)) (handled (fst (main w)))"

text \<open>A header as it stands on the wire.\<close>

definition header_line :: "header \<Rightarrow> string" where
  "header_line h = fst h @ '': '' @ snd h @ CRLF"

definition fixed_lines :: string where
  "fixed_lines = concat (map header_line spec_fixed_headers)"

text \<open>
  Two handlers that went through the same request, the first with the base class's
  \<open>end_headers\<close> and the second with the override: they agree on version and command,
  and unless the version is \<open>HTTP/0.9\<close> their responses differ by the four lines before
  the blank line.
\<close>

definition paired :: "handler \<Rightarrow> handler \<Rightarrow> bool" where
  "paired hp hc \<longleftrightarrow>
     request_version hp = request_version hc \<and> command hp = command hc \<and>
     (request_version hc = ''HTTP/0.9'' \<or>
      (\<exists>head rest. wfile hp = (head @ CRLF) # rest \<and> wfile hc = (head @ fixed_lines @ CRLF) # rest))"

subsection \<open>A concrete library and two more runs\<close>

text \<open>
  A directory holding \<open>index.html\<close> with the content \<open><h1>hi</h1>\<close>, and nothing else.
\<close>

definition site :: library where
  "site =
     \<lparr>responses = (\<lambda>code. if code = 200 then Some (''OK'', ''Request fulfilled, document follows'')
                          else if code = 404 then Some (''Not Found'', ''Nothing matches the given URI'')
                          else None),
      version_string = ''SimpleHTTP/0.6 Python/3.12.3'',
      date_time_string = ''Wed, 04 Nov 2026 10:00:00 GMT'',
      error_page = (\<lambda>code message explain. ''<p>'' @ message @ ''</p>''),
      repr = (\<lambda>s. [CHR 0x27] @ s @ [CHR 0x27]),
      header_fault = (\<lambda>r. None),
      do_method = (\<lambda>c r. if take 11 (drop 4 r) = ''/index.html''
                          then Send_head 200 [(''Content-type'', ''text/html''), (''Content-Length'', ''11'')]
                                 ''<h1>hi</h1>''
                          else Send_error 404 ''File not found'')\<rparr>"

text \<open>A client that asks without a version, as HTTP/0.9 clients do.\<close>

definition plain_get :: world where
  "plain_get =
     \<lparr>argv = [], environ = [], files = [], bind_error = (\<lambda>a. None),
      events = [Request ''GET /index.html'']\<rparr>"

text \<open>A client that asks with version 2.0.\<close>

definition http2_probe :: world where
  "http2_probe =
     \<lparr>argv = [], environ = [], files = [], bind_error = (\<lambda>a. None),
      events = [Request ''GET /index.html HTTP/2.0'']\<rparr>"

section \<open>Properties of the program\<close>

lemma str_8000: "str 8000 = ''8000''"
  by (simp add: str_def digit_def)

lemma serve_loop_eq: "serve_loop es t = (t @ map Handle (served es), raised es)"
  by (induction es t rule: serve_loop.induct) simp_all

lemma served_until_raise [simp]: "served (map Request rs @ Raise e # later) = rs"
  by (induction rs) simp_all

lemma raised_after_requests [simp]: "raised (map Request rs @ Raise e # later) = Some e"
  by (induction rs) simp_all

lemma stdout_of_append: "stdout_of (xs @ ys) = stdout_of xs @ stdout_of ys"
  by (induction xs rule: stdout_of.induct) simp_all

lemma bind_calls_append: "bind_calls (xs @ ys) = bind_calls xs @ bind_calls ys"
  by (induction xs rule: bind_calls.induct) simp_all

lemma stdout_of_Handle [simp]: "stdout_of (map Handle rs) = []"
  by (induction rs) simp_all

lemma bind_calls_Handle [simp]: "bind_calls (map Handle rs) = []"
  by (induction rs) simp_all

text \<open>The two ways a run goes, by whether the bind fails.\<close>

lemma main_bind_fails:
  assumes "bind_error w (''localhost'', 8000) = Some msg"
  shows "main w =
    ([Stdout ''Starting server at http://localhost:8000\<newline>'',
      Http_server (''localhost'', 8000)], Traceback (OSError msg))"
  using assms by (simp add: main_def str_8000 print_def HTTPServer_def port_def)

lemma main_bound:
  assumes "bind_error w (''localhost'', 8000) = None"
  shows "main w =
    (let t = [Stdout ''Starting server at http://localhost:8000\<newline>'',
              Http_server (''localhost'', 8000), Serve_forever] @ map Handle (served (events w))
     in case raised (events w) of
          None \<Rightarrow> (t, Serving)
        | Some KeyboardInterrupt \<Rightarrow> (t @ [Stdout ''\<newline>Server stopped.\<newline>''], Exit 0)
        | Some (OSError msg) \<Rightarrow> (t, Traceback (OSError msg)))"
  using assms
  by (simp add: main_def str_8000 print_def HTTPServer_def port_def serve_forever_def
        serve_loop_eq sys_exit_def Let_def split: option.splits exn.splits)

section \<open>Claims about the program\<close>

text \<open>
  Claim C3, as amended. When the bind has succeeded and \<open>KeyboardInterrupt\<close> comes out
  of the accept loop, after any number of requests, the loop stops there (what arrives
  later is not handled), the program writes \<open>"\nServer stopped.\n"\<close> to standard
  output, that is a line break and then the line \<open>Server stopped.\<close>, and it ends through
  \<open>sys.exit(0)\<close>: the run returns, with exit status 0.
\<close>

theorem interrupt_stops_server:
  assumes "bind_error w (''localhost'', 8000) = None"
    and "events w = map Request rs @ Raise KeyboardInterrupt # later"
  shows "main w =
      ([Stdout ''Starting server at http://localhost:8000\<newline>'',
        Http_server (''localhost'', 8000), Serve_forever]
       @ map Handle rs
       @ [Stdout ''\<newline>Server stopped.\<newline>''], Exit 0)
    \<and> exit_status (snd (main w)) = Some 0"
  using assms by (simp add: main_bound)

text \<open>The run with two requests before the interrupt and one after it.\<close>

theorem interrupt_stops_server_witness:
  "bind_error interrupted_busy (''localhost'', 8000) = None
   \<and> events interrupted_busy =
       map Request [''GET /index.html HTTP/1.1'', ''GET /missing HTTP/1.1'']
       @ Raise KeyboardInterrupt # [Request ''GET /late HTTP/1.1'']
   \<and> main interrupted_busy =
      ([Stdout ''Starting server at http://localhost:8000\<newline>'',
        Http_server (''localhost'', 8000), Serve_forever,
        Handle ''GET /index.html HTTP/1.1'', Handle ''GET /missing HTTP/1.1'',
        Stdout ''\<newline>Server stopped.\<newline>''], Exit 0)
   \<and> exit_status (snd (main interrupted_busy)) = Some 0"
proof -
  have b: "bind_error interrupted_busy (''localhost'', 8000) = None"
    by (simp add: interrupted_busy_def)
  have e: "events interrupted_busy =
       map Request [''GET /index.html HTTP/1.1'', ''GET /missing HTTP/1.1'']
       @ Raise KeyboardInterrupt # [Request ''GET /late HTTP/1.1'']"
    by (simp add: interrupted_busy_def)
  show ?thesis
    using b e interrupt_stops_server [OF b e] by simp
qed

text \<open>
  The claim as stated, that the shutdown prints exactly the one line \<open>Server stopped.\<close>,
  fails on the idle server that is interrupted: standard output then holds the banner
  line, an empty line and the line \<open>Server stopped.\<close>, since the text passed to
  \<open>print\<close> starts with a newline of its own.
\<close>

theorem shutdown_output_counterexample:
  "snd (main interrupted_idle) = Exit 0
   \<and> stdout_of (fst (main interrupted_idle)) =
       ''Starting server at http://localhost:8000\<newline>\<newline>Server stopped.\<newline>''
   \<and> stdout_of (fst (main interrupted_idle)) \<noteq>
       ''Starting server at http://localhost:8000\<newline>Server stopped.\<newline>''"
proof -
  have "bind_error interrupted_idle (''localhost'', 8000) = None"
    by (simp add: interrupted_idle_def)
  then have "main interrupted_idle =
      ([Stdout ''Starting server at http://localhost:8000\<newline>'',
        Http_server (''localhost'', 8000), Serve_forever,
        Stdout ''\<newline>Server stopped.\<newline>''], Exit 0)"
    by (simp add: main_bound interrupted_idle_def)
  then show ?thesis by simp
qed

text \<open>
  Claim C4. When binding the listening socket fails, the \<open>OSError\<close> of the constructor
  is caught by nothing (the call stands before the \<open>try\<close>): the run ends with that very
  error in a traceback, the exit status is not 0, the accept loop is never entered and no
  request is handled.
\<close>

theorem bind_failure_is_fatal:
  assumes "bind_error w (''localhost'', 8000) = Some msg"
  shows "snd (main w) = Traceback (OSError msg)
    \<and> (\<exists>n. exit_status (snd (main w)) = Some n \<and> n \<noteq> 0)
    \<and> Serve_forever \<notin> set (fst (main w))
    \<and> (\<forall>r. Handle r \<notin> set (fst (main w)))"
  using assms by (simp add: main_bind_fails)

text \<open>The run on a port that is in use.\<close>

theorem bind_failure_is_fatal_witness:
  "bind_error port_in_use (''localhost'', 8000) = Some ''[Errno 98] Address already in use''
   \<and> snd (main port_in_use) = Traceback (OSError ''[Errno 98] Address already in use'')
   \<and> (\<exists>n. exit_status (snd (main port_in_use)) = Some n \<and> n \<noteq> 0)
   \<and> Serve_forever \<notin> set (fst (main port_in_use))
   \<and> (\<forall>r. Handle r \<notin> set (fst (main port_in_use)))"
proof -
  have b: "bind_error port_in_use (''localhost'', 8000) = Some ''[Errno 98] Address already in use''"
    by (simp add: port_in_use_def)
  show ?thesis
    using b bind_failure_is_fatal [OF b] by simp
qed

text \<open>
  Claim C5. In every world, whatever the command line, the environment and the files
  hold, the program calls \<open>HTTPServer\<close> once, on \<open>('localhost', 8000)\<close>; replacing
  command line, environment and files changes nothing of the run; the first effect is
  the banner, which is \<open>Starting server at\<close> followed by the URL of that address; and
  all that happens before the accept loop is entered is the banner and then the bind.
\<close>

theorem fixed_address_and_banner:
  "bind_calls (fst (main w)) = [(''localhost'', 8000)]
   \<and> main (w\<lparr>argv := a, environ := e, files := f\<rparr>) = main w
   \<and> (\<exists>addr t. addr = (''localhost'', 8000)
        \<and> fst (main w) =
            Stdout (''Starting server at http://'' @ fst addr @ '':'' @ str (snd addr) @ ''\<newline>'')
            # Http_server addr # t)
   \<and> takeWhile (\<lambda>x. x \<noteq> Serve_forever) (fst (main w)) =
       [Stdout ''Starting server at http://localhost:8000\<newline>'',
        Http_server (''localhost'', 8000)]"
proof (cases "bind_error w (''localhost'', 8000)")
  case None
  define tail where "tail = (case raised (events w) of
      Some KeyboardInterrupt \<Rightarrow> [Stdout ''\<newline>Server stopped.\<newline>''] | _ \<Rightarrow> [])"
  have m: "fst (main w) =
      [Stdout ''Starting server at http://localhost:8000\<newline>'',
       Http_server (''localhost'', 8000), Serve_forever]
      @ map Handle (served (events w)) @ tail"
    using None by (simp add: main_bound Let_def tail_def split: option.splits exn.splits)
  have b: "bind_calls tail = []"
    by (simp add: tail_def split: option.splits exn.splits)
  have i: "main (w\<lparr>argv := a, environ := e, files := f\<rparr>) = main w"
    using None by (simp add: main_bound)
  show ?thesis
    using i b by (simp add: m bind_calls_append str_8000)
next
  case (Some msg)
  then have "main (w\<lparr>argv := a, environ := e, files := f\<rparr>) = main w"
    by (simp add: main_bind_fails)
  with Some show ?thesis
    by (simp add: main_bind_fails str_8000)
qed

text \<open>
  Claim C9. The banner is written before the bind is attempted: when the bind fails, the
  effects of the run are the banner and then the failed call, so standard output already
  holds the line \<open>Starting server at http://localhost:8000\<close> when the error ends the
  run.
\<close>

theorem banner_written_before_failed_bind:
  assumes "bind_error w (''localhost'', 8000) = Some msg"
  shows "fst (main w) =
      [Stdout ''Starting server at http://localhost:8000\<newline>'',
       Http_server (''localhost'', 8000)]
    \<and> stdout_of (fst (main w)) = ''Starting server at http://localhost:8000\<newline>''
    \<and> snd (main w) = Traceback (OSError msg)"
  using assms by (simp add: main_bind_fails)

text \<open>The run in which the bind is refused for lack of permission.\<close>

theorem banner_written_before_failed_bind_witness:
  "bind_error permission_denied (''localhost'', 8000) = Some ''[Errno 13] Permission denied''
   \<and> fst (main permission_denied) =
      [Stdout ''Starting server at http://localhost:8000\<newline>'',
       Http_server (''localhost'', 8000)]
   \<and> stdout_of (fst (main permission_denied)) = ''Starting server at http://localhost:8000\<newline>''
   \<and> snd (main permission_denied) = Traceback (OSError ''[Errno 13] Permission denied'')"
proof -
  have b: "bind_error permission_denied (''localhost'', 8000) = Some ''[Errno 13] Permission denied''"
    by (simp add: permission_denied_def)
  show ?thesis
    using b banner_written_before_failed_bind [OF b] by simp
qed

section \<open>Properties of the responses\<close>

lemma base_send_header_fields [simp]:
  "request_version (base_send_header k v h) = request_version h"
  "wfile (base_send_header k v h) = wfile h"
  "command (base_send_header k v h) = command h"
  by (simp_all add: base_send_header_def Let_def)

lemma send_response_fields [simp]:
  "request_version (send_response L c m h) = request_version h"
  "wfile (send_response L c m h) = wfile h"
  "command (send_response L c m h) = command h"
  by (simp_all add: send_response_def send_response_only_def Let_def split: option.splits)

lemma fold_send_header_fields [simp]:
  "request_version (fold (\<lambda>(keyword, v). base_send_header keyword v) hs h) = request_version h"
  "wfile (fold (\<lambda>(keyword, v). base_send_header keyword v) hs h) = wfile h"
  "command (fold (\<lambda>(keyword, v). base_send_header keyword v) hs h) = command h"
  by (induction hs arbitrary: h) (simp_all split: prod.splits)

lemma base_end_headers_versioned:
  "request_version g \<noteq> ''HTTP/0.9'' \<Longrightarrow>
   base_end_headers g = g\<lparr>wfile := wfile g @ [concat (headers_buffer g) @ CRLF], headers_buffer := []\<rparr>"
  by (simp add: base_end_headers_def flush_headers_def)

lemma CORS_end_headers_versioned:
  "request_version g \<noteq> ''HTTP/0.9'' \<Longrightarrow>
   CORSRequestHandler g =
     g\<lparr>wfile := wfile g @ [concat (headers_buffer g) @ fixed_lines @ CRLF], headers_buffer := []\<rparr>"
  by (simp add: CORSRequestHandler_def end_headers_def SimpleHTTPRequestHandler_def
      base_send_header_def base_end_headers_def flush_headers_def lower_def fixed_lines_def
      header_line_def spec_fixed_headers_def)

lemma end_headers_unversioned:
  "request_version g = ''HTTP/0.9'' \<Longrightarrow> base_end_headers g = g"
  "request_version g = ''HTTP/0.9'' \<Longrightarrow> CORSRequestHandler g = g"
  by (simp_all add: CORSRequestHandler_def end_headers_def SimpleHTTPRequestHandler_def
      base_send_header_def base_end_headers_def lower_def)

lemma end_headers_command [simp]:
  "command (base_end_headers g) = command g"
  "command (CORSRequestHandler g) = command g"
  by (simp_all add: CORSRequestHandler_def end_headers_def SimpleHTTPRequestHandler_def
      base_end_headers_def flush_headers_def Let_def)

lemma finish_paired:
  assumes "wfile g = []"
  shows "paired (if P then (base_end_headers g)\<lparr>wfile := wfile (base_end_headers g) @ [b]\<rparr>
                 else base_end_headers g)
                (if P then (CORSRequestHandler g)\<lparr>wfile := wfile (CORSRequestHandler g) @ [b]\<rparr>
                 else CORSRequestHandler g)"
proof (cases "request_version g = ''HTTP/0.9''")
  case True
  then show ?thesis by (simp add: end_headers_unversioned paired_def)
next
  case False
  then show ?thesis
    using assms by (simp add: base_end_headers_versioned CORS_end_headers_versioned paired_def)
qed

lemma send_error_paired:
  assumes "wfile h = []"
  shows "paired (send_error base_end_headers L c m e h) (send_error CORSRequestHandler L c m e h)"
proof -
  obtain shortmsg longmsg where
    p: "(case responses L c of Some p \<Rightarrow> p | None \<Rightarrow> (''???'', ''???'')) = (shortmsg, longmsg)"
    by (cases "case responses L c of Some p \<Rightarrow> p | None \<Rightarrow> (''???'', ''???'')") auto
  show ?thesis
    unfolding send_error_def Let_def p prod.case end_headers_command
    by (rule finish_paired) (simp add: assms)
qed

lemma unanswered_paired:
  "request_version h = ''HTTP/0.9'' \<Longrightarrow> paired h h"
  by (simp add: paired_def)

lemma finish_paired_head:
  "wfile g = [] \<Longrightarrow> paired (base_end_headers g) (CORSRequestHandler g)"
  using finish_paired [of g False] by simp

lemma finish_paired_body:
  "wfile g = [] \<Longrightarrow>
   paired ((base_end_headers g)\<lparr>wfile := wfile (base_end_headers g) @ [b]\<rparr>)
          ((CORSRequestHandler g)\<lparr>wfile := wfile (CORSRequestHandler g) @ [b]\<rparr>)"
  using finish_paired [of g True b] by simp

lemma handle_one_request_paired:
  "paired (handle_one_request base_end_headers L r new_handler)
          (handle_one_request CORSRequestHandler L r new_handler)"
  unfolding handle_one_request_def parse_request_def
  by (auto simp add: Let_def new_handler_def default_request_version_def send_error_paired
      unanswered_paired finish_paired_head finish_paired_body
      split: option.splits reply.splits prod.splits)

lemma handled_append: "handled (xs @ ys) = handled xs @ handled ys"
  by (induction xs rule: handled.induct) simp_all

lemma handled_Handle [simp]: "handled (map Handle rs) = rs"
  by (induction rs) simp_all

lemma versioned_response:
  assumes "request_version (handle_one_request CORSRequestHandler L r new_handler) \<noteq> ''HTTP/0.9''"
  shows "\<exists>head rest.
      response base_end_headers L r = (head @ CRLF) # rest
    \<and> response CORSRequestHandler L r = (head @ fixed_lines @ CRLF) # rest"
  using assms handle_one_request_paired [of L r] by (simp add: paired_def response_def)

subsection \<open>The requests of the concrete runs, step by step\<close>

lemma served_busy:
  "handled (fst (main interrupted_busy)) =
     [''GET /index.html HTTP/1.1'', ''GET /missing HTTP/1.1'']"
  by (simp add: main_bound handled_append interrupted_busy_def)

lemma words_missing:
  "split_words (rstrip_crlf (raw_requestline ''GET /missing HTTP/1.1'')) =
     [''GET'', ''/missing'', ''HTTP/1.1'']"
  by (simp add: raw_requestline_def rstrip_crlf_def split_words_def isspace_def)

lemma words_index:
  "split_words (rstrip_crlf (raw_requestline ''GET /index.html HTTP/1.1'')) =
     [''GET'', ''/index.html'', ''HTTP/1.1'']"
  by (simp add: raw_requestline_def rstrip_crlf_def split_words_def isspace_def)

lemma words_plain:
  "split_words (rstrip_crlf (raw_requestline ''GET /index.html'')) = [''GET'', ''/index.html'']"
  by (simp add: raw_requestline_def rstrip_crlf_def split_words_def isspace_def)

lemma words_http2:
  "split_words (rstrip_crlf (raw_requestline ''GET /index.html HTTP/2.0'')) =
     [''GET'', ''/index.html'', ''HTTP/2.0'']"
  by (simp add: raw_requestline_def rstrip_crlf_def split_words_def isspace_def)

lemma http_version_1_1: "http_version ''HTTP/1.1'' = Some (1, 1)"
  by (simp add: http_version_def isdigit_def)

lemma http_version_2_0: "http_version ''HTTP/2.0'' = Some (2, 0)"
  by (simp add: http_version_def isdigit_def)

lemma parse_missing:
  "parse_request eh site ''GET /missing HTTP/1.1'' new_handler =
     (True, \<lparr>request_version = ''HTTP/1.1'', command = Some ''GET'', close_connection = True,
             headers_buffer = [], wfile = []\<rparr>)"
  by (simp add: parse_request_def words_missing http_version_1_1 new_handler_def site_def Let_def)

lemma parse_index:
  "parse_request eh site ''GET /index.html HTTP/1.1'' new_handler =
     (True, \<lparr>request_version = ''HTTP/1.1'', command = Some ''GET'', close_connection = True,
             headers_buffer = [], wfile = []\<rparr>)"
  by (simp add: parse_request_def words_index http_version_1_1 new_handler_def site_def Let_def)

lemma parse_plain:
  "parse_request eh site ''GET /index.html'' new_handler =
     (True, \<lparr>request_version = ''HTTP/0.9'', command = Some ''GET'', close_connection = True,
             headers_buffer = [], wfile = []\<rparr>)"
  by (simp add: parse_request_def words_plain new_handler_def default_request_version_def
      site_def Let_def)

lemma error_missing:
  "send_error CORSRequestHandler site 404 (Some ''File not found'') None
     \<lparr>request_version = ''HTTP/1.1'', command = Some ''GET'', close_connection = True,
      headers_buffer = [], wfile = []\<rparr> =
   \<lparr>request_version = ''HTTP/1.1'', command = Some ''GET'', close_connection = True,
    headers_buffer = [],
    wfile = [''HTTP/1.0 404 File not found'' @ CRLF
             @ ''Server: SimpleHTTP/0.6 Python/3.12.3'' @ CRLF
             @ ''Date: Wed, 04 Nov 2026 10:00:00 GMT'' @ CRLF
             @ ''Connection: close'' @ CRLF
             @ ''Content-Type: text/html;charset=utf-8'' @ CRLF
             @ ''Content-Length: 21'' @ CRLF
             @ ''Access-Control-Allow-Origin: *'' @ CRLF
             @ ''Cache-Control: no-cache, no-store, must-revalidate'' @ CRLF
             @ ''Pragma: no-cache'' @ CRLF
             @ ''Expires: 0'' @ CRLF
             @ CRLF,
             ''<p>File not found</p>'']\<rparr>"
  by (simp add: send_error_def send_response_def send_response_only_def base_send_header_def
      lower_def protocol_version_def error_content_type_def CORS_end_headers_versioned
      fixed_lines_def header_line_def spec_fixed_headers_def site_def str_def digit_def Let_def)

lemma error_http2:
  "send_error CORSRequestHandler site 505 (Some ''Invalid HTTP version (2.0)'') None
     \<lparr>request_version = ''HTTP/0.9'', command = None, close_connection = True,
      headers_buffer = [], wfile = []\<rparr> =
   \<lparr>request_version = ''HTTP/0.9'', command = None, close_connection = True,
    headers_buffer = [], wfile = [''<p>Invalid HTTP version (2.0)</p>'']\<rparr>"
  by (simp add: send_error_def send_response_def send_response_only_def base_send_header_def
      lower_def end_headers_unversioned site_def Let_def)

lemma handle_missing:
  "handle_one_request CORSRequestHandler site ''GET /missing HTTP/1.1'' new_handler =
   \<lparr>request_version = ''HTTP/1.1'', command = Some ''GET'', close_connection = True,
    headers_buffer = [],
    wfile = [''HTTP/1.0 404 File not found'' @ CRLF
             @ ''Server: SimpleHTTP/0.6 Python/3.12.3'' @ CRLF
             @ ''Date: Wed, 04 Nov 2026 10:00:00 GMT'' @ CRLF
             @ ''Connection: close'' @ CRLF
             @ ''Content-Type: text/html;charset=utf-8'' @ CRLF
             @ ''Content-Length: 21'' @ CRLF
             @ ''Access-Control-Allow-Origin: *'' @ CRLF
             @ ''Cache-Control: no-cache, no-store, must-revalidate'' @ CRLF
             @ ''Pragma: no-cache'' @ CRLF
             @ ''Expires: 0'' @ CRLF
             @ CRLF,
             ''<p>File not found</p>'']\<rparr>"
proof -
  have "raw_requestline ''GET /missing HTTP/1.1'' = ''GET /missing HTTP/1.1''"
    by (simp add: raw_requestline_def)
  moreover have "do_method site ''GET'' ''GET /missing HTTP/1.1'' = Send_error 404 ''File not found''"
    by (simp add: site_def)
  ultimately show ?thesis
    by (simp add: handle_one_request_def parse_missing error_missing)
qed

lemma handle_plain:
  "handle_one_request CORSRequestHandler site ''GET /index.html'' new_handler =
   \<lparr>request_version = ''HTTP/0.9'', command = Some ''GET'', close_connection = True,
    headers_buffer = [], wfile = [''<h1>hi</h1>'']\<rparr>"
proof -
  have "raw_requestline ''GET /index.html'' = ''GET /index.html''"
    by (simp add: raw_requestline_def)
  moreover have "do_method site ''GET'' ''GET /index.html'' =
      Send_head 200 [(''Content-type'', ''text/html''), (''Content-Length'', ''11'')] ''<h1>hi</h1>''"
    by (simp add: site_def)
  ultimately show ?thesis
    by (simp add: handle_one_request_def parse_plain send_response_def send_response_only_def
        base_send_header_def lower_def end_headers_unversioned Let_def)
qed

lemma handle_http2:
  "handle_one_request CORSRequestHandler site ''GET /index.html HTTP/2.0'' new_handler =
   \<lparr>request_version = ''HTTP/0.9'', command = None, close_connection = True,
    headers_buffer = [], wfile = [''<p>Invalid HTTP version (2.0)</p>'']\<rparr>"
proof -
  have "raw_requestline ''GET /index.html HTTP/2.0'' = ''GET /index.html HTTP/2.0''"
    by (simp add: raw_requestline_def)
  moreover have "parse_request CORSRequestHandler site ''GET /index.html HTTP/2.0'' new_handler =
      (False, \<lparr>request_version = ''HTTP/0.9'', command = None, close_connection = True,
               headers_buffer = [], wfile = [''<p>Invalid HTTP version (2.0)</p>'']\<rparr>)"
    by (simp add: parse_request_def words_http2 http_version_2_0 new_handler_def
        default_request_version_def error_http2 Let_def)
  ultimately show ?thesis
    by (simp add: handle_one_request_def)
qed

lemma handle_index:
  "handle_one_request CORSRequestHandler site ''GET /index.html HTTP/1.1'' new_handler =
   \<lparr>request_version = ''HTTP/1.1'', command = Some ''GET'', close_connection = True,
    headers_buffer = [],
    wfile = [''HTTP/1.0 200 OK'' @ CRLF
             @ ''Server: SimpleHTTP/0.6 Python/3.12.3'' @ CRLF
             @ ''Date: Wed, 04 Nov 2026 10:00:00 GMT'' @ CRLF
             @ ''Content-type: text/html'' @ CRLF
             @ ''Content-Length: 11'' @ CRLF
             @ ''Access-Control-Allow-Origin: *'' @ CRLF
             @ ''Cache-Control: no-cache, no-store, must-revalidate'' @ CRLF
             @ ''Pragma: no-cache'' @ CRLF
             @ ''Expires: 0'' @ CRLF
             @ CRLF,
             ''<h1>hi</h1>'']\<rparr>"
proof -
  have "raw_requestline ''GET /index.html HTTP/1.1'' = ''GET /index.html HTTP/1.1''"
    by (simp add: raw_requestline_def)
  moreover have "do_method site ''GET'' ''GET /index.html HTTP/1.1'' =
      Send_head 200 [(''Content-type'', ''text/html''), (''Content-Length'', ''11'')] ''<h1>hi</h1>''"
    by (simp add: site_def)
  moreover have "responses site 200 = Some (''OK'', ''Request fulfilled, document follows'')"
    and "version_string site = ''SimpleHTTP/0.6 Python/3.12.3''"
    and "date_time_string site = ''Wed, 04 Nov 2026 10:00:00 GMT''"
    by (simp_all add: site_def)
  ultimately show ?thesis
    by (simp add: handle_one_request_def parse_index send_response_def send_response_only_def
        base_send_header_def lower_def protocol_version_def CORS_end_headers_versioned
        fixed_lines_def header_line_def spec_fixed_headers_def str_def digit_def Let_def)
qed

lemma handle_index_base:
  "handle_one_request base_end_headers site ''GET /index.html HTTP/1.1'' new_handler =
   \<lparr>request_version = ''HTTP/1.1'', command = Some ''GET'', close_connection = True,
    headers_buffer = [],
    wfile = [''HTTP/1.0 200 OK'' @ CRLF
             @ ''Server: SimpleHTTP/0.6 Python/3.12.3'' @ CRLF
             @ ''Date: Wed, 04 Nov 2026 10:00:00 GMT'' @ CRLF
             @ ''Content-type: text/html'' @ CRLF
             @ ''Content-Length: 11'' @ CRLF
             @ CRLF,
             ''<h1>hi</h1>'']\<rparr>"
proof -
  have "raw_requestline ''GET /index.html HTTP/1.1'' = ''GET /index.html HTTP/1.1''"
    by (simp add: raw_requestline_def)
  moreover have "do_method site ''GET'' ''GET /index.html HTTP/1.1'' =
      Send_head 200 [(''Content-type'', ''text/html''), (''Content-Length'', ''11'')] ''<h1>hi</h1>''"
    by (simp add: site_def)
  moreover have "responses site 200 = Some (''OK'', ''Request fulfilled, document follows'')"
    and "version_string site = ''SimpleHTTP/0.6 Python/3.12.3''"
    and "date_time_string site = ''Wed, 04 Nov 2026 10:00:00 GMT''"
    by (simp_all add: site_def)
  ultimately show ?thesis
    by (simp add: handle_one_request_def parse_index send_response_def send_response_only_def
        base_send_header_def lower_def protocol_version_def base_end_headers_versioned
        str_def digit_def Let_def)
qed

section \<open>Claims about the responses\<close>

text \<open>
  Claim C1, as amended. Every response the server sends to a request for which the
  handler's \<open>request_version\<close> is not \<open>HTTP/0.9\<close>, be it a file, a listing or an error,
  starts with a header block that ends with the four headers of the specification,
  with exactly their values, and then the blank line: they are appended before the
  headers are finished, whatever the request and whatever the base handler answers.
\<close>

theorem fixed_headers_in_versioned_responses:
  assumes "(r, resp) \<in> set (server_responses L w)"
    and "request_version (handle_one_request CORSRequestHandler L r new_handler) \<noteq> ''HTTP/0.9''"
  shows "\<exists>head rest. resp = (head @ concat (map header_line spec_fixed_headers) @ CRLF) # rest"
proof -
  from assms(1) have "resp = response CORSRequestHandler L r"
    by (auto simp add: server_responses_def)
  with versioned_response [OF assms(2)] show ?thesis
    by (auto simp add: fixed_lines_def)
qed

text \<open>The \<open>404\<close> for a missing file, in the run with two requests before the interrupt.\<close>

theorem fixed_headers_in_versioned_responses_witness:
  "(''GET /missing HTTP/1.1'',
     [''HTTP/1.0 404 File not found'' @ CRLF
      @ ''Server: SimpleHTTP/0.6 Python/3.12.3'' @ CRLF
      @ ''Date: Wed, 04 Nov 2026 10:00:00 GMT'' @ CRLF
      @ ''Connection: close'' @ CRLF
      @ ''Content-Type: text/html;charset=utf-8'' @ CRLF
      @ ''Content-Length: 21'' @ CRLF
      @ ''Access-Control-Allow-Origin: *'' @ CRLF
      @ ''Cache-Control: no-cache, no-store, must-revalidate'' @ CRLF
      @ ''Pragma: no-cache'' @ CRLF
      @ ''Expires: 0'' @ CRLF
      @ CRLF,
      ''<p>File not found</p>'']) \<in> set (server_responses site interrupted_busy)
   \<and> request_version
        (handle_one_request CORSRequestHandler site ''GET /missing HTTP/1.1'' new_handler)
       \<noteq> ''HTTP/0.9''
   \<and> (\<exists>head rest.
        [''HTTP/1.0 404 File not found'' @ CRLF
      @ ''Server: SimpleHTTP/0.6 Python/3.12.3'' @ CRLF
      @ ''Date: Wed, 04 Nov 2026 10:00:00 GMT'' @ CRLF
      @ ''Connection: close'' @ CRLF
      @ ''Content-Type: text/html;charset=utf-8'' @ CRLF
      @ ''Content-Length: 21'' @ CRLF
      @ ''Access-Control-Allow-Origin: *'' @ CRLF
      @ ''Cache-Control: no-cache, no-store, must-revalidate'' @ CRLF
      @ ''Pragma: no-cache'' @ CRLF
      @ ''Expires: 0'' @ CRLF
      @ CRLF,
      ''<p>File not found</p>''] = (head @ concat (map header_line spec_fixed_headers) @ CRLF) # rest)"
proof -
  have m: "(''GET /missing HTTP/1.1'',
     [''HTTP/1.0 404 File not found'' @ CRLF
      @ ''Server: SimpleHTTP/0.6 Python/3.12.3'' @ CRLF
      @ ''Date: Wed, 04 Nov 2026 10:00:00 GMT'' @ CRLF
      @ ''Connection: close'' @ CRLF
      @ ''Content-Type: text/html;charset=utf-8'' @ CRLF
      @ ''Content-Length: 21'' @ CRLF
      @ ''Access-Control-Allow-Origin: *'' @ CRLF
      @ ''Cache-Control: no-cache, no-store, must-revalidate'' @ CRLF
      @ ''Pragma: no-cache'' @ CRLF
      @ ''Expires: 0'' @ CRLF
      @ CRLF,
      ''<p>File not found</p>'']) \<in> set (server_responses site interrupted_busy)"
    by (simp add: server_responses_def served_busy response_def handle_missing)
  have v: "request_version
      (handle_one_request CORSRequestHandler site ''GET /missing HTTP/1.1'' new_handler)
      \<noteq> ''HTTP/0.9''"
    by (simp add: handle_missing)
  from fixed_headers_in_versioned_responses [OF m v] m v show ?thesis
    by (intro conjI)
qed

text \<open>
  The claim as stated, for every response, fails on a request line without a version:
  the handler stays at \<open>HTTP/0.9\<close>, where the library's \<open>send_header\<close> and \<open>end_headers\<close>
  write nothing, and the response is the file alone, with none of the four headers.
\<close>

theorem headers_missing_without_version_counterexample:
  "server_responses site plain_get = [(''GET /index.html'', [''<h1>hi</h1>''])]"
proof -
  have "handled (fst (main plain_get)) = [''GET /index.html'']"
    by (simp add: main_bound handled_append plain_get_def)
  then show ?thesis
    by (simp add: server_responses_def response_def handle_plain)
qed

text \<open>
  Claim C10, as amended. In every response the server sends to a request for which the
  handler's \<open>request_version\<close> is not \<open>HTTP/0.9\<close>: take the response of the base handler
  alone to the same request, whose header block is its status line and headers and then
  the blank line. The server's header block is that same status line and those headers,
  then \<open>Access-Control-Allow-Origin\<close>, \<open>Cache-Control\<close>, \<open>Pragma\<close> and \<open>Expires\<close> in this
  order, then the blank line with nothing in between; what follows the header block is
  unchanged.
\<close>

theorem injected_headers_follow_base_headers:
  assumes "(r, resp) \<in> set (server_responses L w)"
    and "request_version (handle_one_request CORSRequestHandler L r new_handler) \<noteq> ''HTTP/0.9''"
  shows "\<exists>head rest.
      response base_end_headers L r = (head @ CRLF) # rest
    \<and> resp =
        (head
         @ ''Access-Control-Allow-Origin: *'' @ CRLF
         @ ''Cache-Control: no-cache, no-store, must-revalidate'' @ CRLF
         @ ''Pragma: no-cache'' @ CRLF
         @ ''Expires: 0'' @ CRLF
         @ CRLF) # rest"
proof -
  from assms(1) have "resp = response CORSRequestHandler L r"
    by (auto simp add: server_responses_def)
  moreover have "fixed_lines =
      ''Access-Control-Allow-Origin: *'' @ CRLF
      @ ''Cache-Control: no-cache, no-store, must-revalidate'' @ CRLF
      @ ''Pragma: no-cache'' @ CRLF
      @ ''Expires: 0'' @ CRLF"
    by (simp add: fixed_lines_def header_line_def spec_fixed_headers_def)
  ultimately show ?thesis
    using versioned_response [OF assms(2)] by auto
qed

text \<open>The \<open>200\<close> for \<open>index.html\<close>, next to what the base handler alone sends.\<close>

theorem injected_headers_follow_base_headers_witness:
  "(''GET /index.html HTTP/1.1'',
     [''HTTP/1.0 200 OK'' @ CRLF
             @ ''Server: SimpleHTTP/0.6 Python/3.12.3'' @ CRLF
             @ ''Date: Wed, 04 Nov 2026 10:00:00 GMT'' @ CRLF
             @ ''Content-type: text/html'' @ CRLF
             @ ''Content-Length: 11'' @ CRLF
             @ ''Access-Control-Allow-Origin: *'' @ CRLF
             @ ''Cache-Control: no-cache, no-store, must-revalidate'' @ CRLF
             @ ''Pragma: no-cache'' @ CRLF
             @ ''Expires: 0'' @ CRLF
             @ CRLF,
             ''<h1>hi</h1>'']) \<in> set (server_responses site interrupted_busy)
   \<and> request_version
        (handle_one_request CORSRequestHandler site ''GET /index.html HTTP/1.1'' new_handler)
       \<noteq> ''HTTP/0.9''
   \<and> (\<exists>head rest.
        response base_end_headers site ''GET /index.html HTTP/1.1'' = (head @ CRLF) # rest
      \<and> [''HTTP/1.0 200 OK'' @ CRLF
             @ ''Server: SimpleHTTP/0.6 Python/3.12.3'' @ CRLF
             @ ''Date: Wed, 04 Nov 2026 10:00:00 GMT'' @ CRLF
             @ ''Content-type: text/html'' @ CRLF
             @ ''Content-Length: 11'' @ CRLF
             @ ''Access-Control-Allow-Origin: *'' @ CRLF
             @ ''Cache-Control: no-cache, no-store, must-revalidate'' @ CRLF
             @ ''Pragma: no-cache'' @ CRLF
             @ ''Expires: 0'' @ CRLF
             @ CRLF,
             ''<h1>hi</h1>''] =
          (head
           @ ''Access-Control-Allow-Origin: *'' @ CRLF
           @ ''Cache-Control: no-cache, no-store, must-revalidate'' @ CRLF
           @ ''Pragma: no-cache'' @ CRLF
           @ ''Expires: 0'' @ CRLF
           @ CRLF) # rest)
   \<and> response base_end_headers site ''GET /index.html HTTP/1.1'' =
       [''HTTP/1.0 200 OK'' @ CRLF
             @ ''Server: SimpleHTTP/0.6 Python/3.12.3'' @ CRLF
             @ ''Date: Wed, 04 Nov 2026 10:00:00 GMT'' @ CRLF
             @ ''Content-type: text/html'' @ CRLF
             @ ''Content-Length: 11'' @ CRLF
             @ CRLF,
             ''<h1>hi</h1>'']"
proof -
  have m: "(''GET /index.html HTTP/1.1'',
     [''HTTP/1.0 200 OK'' @ CRLF
             @ ''Server: SimpleHTTP/0.6 Python/3.12.3'' @ CRLF
             @ ''Date: Wed, 04 Nov 2026 10:00:00 GMT'' @ CRLF
             @ ''Content-type: text/html'' @ CRLF
             @ ''Content-Length: 11'' @ CRLF
             @ ''Access-Control-Allow-Origin: *'' @ CRLF
             @ ''Cache-Control: no-cache, no-store, must-revalidate'' @ CRLF
             @ ''Pragma: no-cache'' @ CRLF
             @ ''Expires: 0'' @ CRLF
             @ CRLF,
             ''<h1>hi</h1>'']) \<in> set (server_responses site interrupted_busy)"
    by (simp add: server_responses_def served_busy response_def handle_index)
  have v: "request_version
      (handle_one_request CORSRequestHandler site ''GET /index.html HTTP/1.1'' new_handler)
      \<noteq> ''HTTP/0.9''"
    by (simp add: handle_index)
  have p: "response base_end_headers site ''GET /index.html HTTP/1.1'' =
       [''HTTP/1.0 200 OK'' @ CRLF
             @ ''Server: SimpleHTTP/0.6 Python/3.12.3'' @ CRLF
             @ ''Date: Wed, 04 Nov 2026 10:00:00 GMT'' @ CRLF
             @ ''Content-type: text/html'' @ CRLF
             @ ''Content-Length: 11'' @ CRLF
             @ CRLF,
             ''<h1>hi</h1>'']"
    by (simp add: response_def handle_index_base)
  from injected_headers_follow_base_headers [OF m v] m v p show ?thesis
    by (intro conjI)
qed

text \<open>
  The claim as stated, for every response, fails on a request whose version the library
  rejects: the \<open>505\<close> for \<open>HTTP/2.0\<close> is sent while the handler is still at \<open>HTTP/0.9\<close>,
  and the response is the error page alone, with none of the four headers.
\<close>

theorem headers_missing_on_rejected_version_counterexample:
  "server_responses site http2_probe =
     [(''GET /index.html HTTP/2.0'', [''<p>Invalid HTTP version (2.0)</p>''])]"
proof -
  have "handled (fst (main http2_probe)) = [''GET /index.html HTTP/2.0'']"
    by (simp add: main_bound handled_append http2_probe_def)
  then show ?thesis
    by (simp add: server_responses_def response_def handle_http2)
qed

end
